theory Spec2Isabelle
  imports Complex_Main "HOL-Library.Sublist"
begin

section \<open>Target resolution of \<open>lib/config/target.js\<close>\<close>

subsection \<open>Values and objects\<close>

text \<open>
  A property of a target-properties object holds \<open>true\<close>, \<open>false\<close> or
  \<open>undefined\<close>. An object is an association list in insertion order; reading a
  property that the object does not have gives \<open>undefined\<close>, as \<open>tp[key]\<close> does.
\<close>

datatype jsvalue = JTrue | JFalse | JUndefined

type_synonym target_properties = "(string \<times> jsvalue) list"

definition ofBool :: "bool \<Rightarrow> jsvalue" where
  "ofBool b = (if b then JTrue else JFalse)"

definition getProp :: "target_properties \<Rightarrow> string \<Rightarrow> jsvalue" where
  "getProp tp key = (case map_of tp key of None \<Rightarrow> JUndefined | Some v \<Rightarrow> v)"

text \<open>\<open>Object.keys(tp)\<close>: the own keys, in insertion order.\<close>

definition objectKeys :: "target_properties \<Rightarrow> string list" where
  "objectKeys tp = map fst tp"

text \<open>\<open>result[key] = v\<close>: overwrite in place, or append a new property.\<close>

fun setProp :: "target_properties \<Rightarrow> string \<Rightarrow> jsvalue \<Rightarrow> target_properties" where
  "setProp [] key v = [(key, v)]"
| "setProp ((k, w) # tp) key v = (if k = key then (k, v) # tp else (k, w) # setProp tp key v)"

text \<open>
  The names of the three typedefs at the head of the file
  (\<open>PlatformTargetProperties\<close>, \<open>ApiTargetProperties\<close>, \<open>EcmaTargetProperties\<close>).
  The big-int-literal property is spelled \<open>bigInitLiteral\<close> throughout the source.
\<close>

definition PlatformTargetProperties :: "string list" where
  "PlatformTargetProperties = [''web'', ''node'', ''nwjs'', ''electronMain'', ''electronPreload'']"

definition ApiTargetProperties :: "string list" where
  "ApiTargetProperties =
     [''require'', ''document'', ''importScripts'', ''importScriptsInWorker'', ''fetchWasm'', ''global'']"

definition EcmaTargetProperties :: "string list" where
  "EcmaTargetProperties =
     [''globalThis'', ''bigInitLiteral'', ''const'', ''arrowFunctions'', ''forOf'',
      ''destructuring'', ''import'', ''module'']"

subsection \<open>Strings, captures and numbers\<close>

text \<open>
  A capture group that took part in the match is \<open>Some s\<close>; one that did not is
  \<open>None\<close> (\<open>undefined\<close>). Such a value is falsy when it is \<open>undefined\<close> or the
  empty string.
\<close>

definition truthy :: "string option \<Rightarrow> bool" where
  "truthy a = (case a of None \<Rightarrow> False | Some s \<Rightarrow> s \<noteq> [])"

definition isDigit :: "char \<Rightarrow> bool" where
  "isDigit c = (c \<in> set ''0123456789'')"

text \<open>The value of a string of decimal digits.\<close>

definition digitValue :: "char \<Rightarrow> nat" where
  "digitValue c = of_char c - 48"

definition decimal :: "string \<Rightarrow> nat" where
  "decimal s = foldl (\<lambda>a c. 10 * a + digitValue c) 0 s"

text \<open>
  Numbers are doubles. A finite double is kept as the rational it stands for; the two
  infinities and \<open>NaN\<close> are values of their own. (The sign of zero is not kept: no
  comparison tells \<open>-0\<close> from \<open>0\<close>.)
\<close>

datatype number = Number rat | PosInfinity | NegInfinity | NaN

text \<open>
  Rounding a rational to the nearest double, ties to even. For \<open>x > 0\<close> with
  \<open>2^e \<le> x < 2^(e+1)\<close> the doubles near \<open>x\<close> are the multiples of \<open>2^(e-52)\<close>; below
  \<open>2^(-1022)\<close> they are the multiples of \<open>2^(-1074)\<close>; a result of \<open>2^1024\<close> or more is
  \<open>Infinity\<close>. \<open>bitLength n\<close> is the number of binary digits of \<open>n\<close>.
\<close>

function bitLength :: "int \<Rightarrow> nat" where
  "bitLength n = (if n \<le> 0 then 0 else Suc (bitLength (n div 2)))"
  by pat_completeness auto
termination
  by (relation "measure nat") auto

declare bitLength.simps [simp del]

definition binaryExponent :: "rat \<Rightarrow> int" where
  "binaryExponent x =
     (if 1 \<le> x then int (bitLength \<lfloor>x\<rfloor>) - 1
      else - int (bitLength (\<lceil>1 / x\<rceil> - 1)))"

definition roundHalfEven :: "rat \<Rightarrow> int" where
  "roundHalfEven q =
     (let f = \<lfloor>q\<rfloor>; r = q - of_int f in
      if r < 1 / 2 then f
      else if 1 / 2 < r then f + 1
      else if even f then f else f + 1)"

definition roundPositive :: "rat \<Rightarrow> number" where
  "roundPositive x =
     (let e = max (binaryExponent x) (- 1022);
          ulp = 2 powi (e - 52);
          r = of_int (roundHalfEven (x / ulp)) * ulp
      in if 2 powi 1024 \<le> r then PosInfinity else Number r)"

fun negate :: "number \<Rightarrow> number" where
  "negate (Number a) = Number (- a)"
| "negate PosInfinity = NegInfinity"
| "negate NegInfinity = PosInfinity"
| "negate NaN = NaN"

definition roundDouble :: "rat \<Rightarrow> number" where
  "roundDouble x =
     (if x = 0 then Number 0
      else if 0 < x then roundPositive x
      else negate (roundPositive (- x)))"

text \<open>
  The unary \<open>+\<close> applied to a string, on the decimal forms \<open>digits\<close> and
  \<open>digits.digits\<close> (and the empty string, which is \<open>0\<close>): the decimal value, rounded to
  the nearest double. \<open>+undefined\<close> is \<open>NaN\<close>. Every other string is \<open>NaN\<close> here:
  white space, signs, exponents, hexadecimal forms and a leading point are not modelled,
  and the matchers below capture none of them.
\<close>

definition toNumber :: "string option \<Rightarrow> number" where
  "toNumber a =
     (case a of
        None \<Rightarrow> NaN
      | Some s \<Rightarrow>
          (let ip = takeWhile isDigit s; rest = dropWhile isDigit s in
           if s = [] then Number 0
           else if ip = [] then NaN
           else if rest = [] then roundDouble (of_nat (decimal ip))
           else if hd rest = CHR ''.'' \<and> list_all isDigit (tl rest)
             then roundDouble
                    (of_nat (decimal ip) + of_nat (decimal (tl rest)) / 10 ^ length (tl rest))
           else NaN))"

text \<open>
  Comparisons, each false when an operand is \<open>NaN\<close>, and subtraction, which rounds
  the difference of two finite doubles.
\<close>

fun numGt :: "number \<Rightarrow> number \<Rightarrow> bool" where
  "numGt (Number a) (Number b) = (a > b)"
| "numGt PosInfinity (Number b) = True"
| "numGt PosInfinity NegInfinity = True"
| "numGt (Number a) NegInfinity = True"
| "numGt _ _ = False"

fun numGe :: "number \<Rightarrow> number \<Rightarrow> bool" where
  "numGe (Number a) (Number b) = (a \<ge> b)"
| "numGe PosInfinity (Number b) = True"
| "numGe PosInfinity NegInfinity = True"
| "numGe PosInfinity PosInfinity = True"
| "numGe (Number a) NegInfinity = True"
| "numGe NegInfinity NegInfinity = True"
| "numGe _ _ = False"

fun numEq :: "number \<Rightarrow> number \<Rightarrow> bool" where
  "numEq (Number a) (Number b) = (a = b)"
| "numEq PosInfinity PosInfinity = True"
| "numEq NegInfinity NegInfinity = True"
| "numEq _ _ = False"

fun numSub :: "number \<Rightarrow> number \<Rightarrow> number" where
  "numSub (Number a) (Number b) = roundDouble (a - b)"
| "numSub PosInfinity (Number b) = PosInfinity"
| "numSub PosInfinity NegInfinity = PosInfinity"
| "numSub NegInfinity (Number b) = NegInfinity"
| "numSub NegInfinity PosInfinity = NegInfinity"
| "numSub (Number a) PosInfinity = NegInfinity"
| "numSub (Number a) NegInfinity = PosInfinity"
| "numSub _ _ = NaN"

subsection \<open>\<open>versionDependent\<close>\<close>

text \<open>
  \<open>versionDependent(major, minor)\<close> returns a comparator \<open>(vMajor, vMinor = 0)\<close>.
  The comparator's second argument is optional: \<open>None\<close> is a call such as \<open>v(12)\<close>.
\<close>

definition versionDependent ::
  "string option \<Rightarrow> string option \<Rightarrow> nat \<Rightarrow> nat option \<Rightarrow> jsvalue" where
  "versionDependent major minor =
     (if \<not> truthy major then (\<lambda>vMajor vMinor. JUndefined)
      else
        (let major' = toNumber major;
             minor' = (if truthy minor then toNumber minor else Number 0)
         in (\<lambda>vMajor vMinor.
               (let vMinor' = (case vMinor of None \<Rightarrow> 0 | Some n \<Rightarrow> n) in
                ofBool (numGt major' (Number (of_nat vMajor)) \<or>
                        (numEq major' (Number (of_nat vMajor)) \<and>
                         numGe minor' (Number (of_nat vMinor'))))))))"

subsection \<open>The matchers\<close>

text \<open>
  Every regular expression of the table is anchored at both ends, so \<open>exec\<close> either
  fails or returns the capture groups of the one way the whole string matches.
\<close>

fun stripPrefix :: "string \<Rightarrow> string \<Rightarrow> string option" where
  "stripPrefix [] s = Some s"
| "stripPrefix (p # ps) [] = None"
| "stripPrefix (p # ps) (c # cs) = (if p = c then stripPrefix ps cs else None)"

definition stripSuffix :: "string \<Rightarrow> string \<Rightarrow> string option" where
  "stripSuffix p s = map_option rev (stripPrefix (rev p) (rev s))"

text \<open>\<open>\d+\<close> against a whole string.\<close>

definition digits :: "string \<Rightarrow> bool" where
  "digits s = (s \<noteq> [] \<and> list_all isDigit s)"

text \<open>
  \<open>\d+(?:\.(\d+))?\<close> against a whole string: on a match, the capture of the inner
  group (\<open>None\<close> when the optional part is not there).
\<close>

definition versionGroups :: "string \<Rightarrow> string option option" where
  "versionGroups s =
     (let ip = takeWhile isDigit s; rest = dropWhile isDigit s in
      if ip = [] then None
      else if rest = [] then Some None
      else if hd rest = CHR ''.'' \<and> digits (tl rest) then Some (Some (tl rest))
      else None)"

text \<open>\<open>/^(async-)node(\d+(?:\.(\d+))?)$/\<close>\<close>

definition nodeRegExp :: "string \<Rightarrow> string option list option" where
  "nodeRegExp s =
     (case stripPrefix ''async-'' s of
        None \<Rightarrow> None
      | Some s1 \<Rightarrow>
          (case stripPrefix ''node'' s1 of
             None \<Rightarrow> None
           | Some s2 \<Rightarrow>
               (case versionGroups s2 of
                  None \<Rightarrow> None
                | Some g3 \<Rightarrow> Some [Some ''async-'', Some s2, g3])))"

text \<open>\<open>/^web$/\<close> and \<open>/^webworker$/\<close>\<close>

definition webRegExp :: "string \<Rightarrow> string option list option" where
  "webRegExp s = (if s = ''web'' then Some [] else None)"

definition webworkerRegExp :: "string \<Rightarrow> string option list option" where
  "webworkerRegExp s = (if s = ''webworker'' then Some [] else None)"

text \<open>\<open>/^electron(\d+(?:\.(\d+))?)-main$/\<close>\<close>

definition electronMainRegExp :: "string \<Rightarrow> string option list option" where
  "electronMainRegExp s =
     (case stripPrefix ''electron'' s of
        None \<Rightarrow> None
      | Some s1 \<Rightarrow>
          (case stripSuffix ''-main'' s1 of
             None \<Rightarrow> None
           | Some s2 \<Rightarrow>
               (case versionGroups s2 of
                  None \<Rightarrow> None
                | Some g2 \<Rightarrow> Some [Some s2, g2])))"

text \<open>\<open>/^electron(\d+(?:\.(\d+))?)-(?:preload|renderer)$/\<close>\<close>

definition electronPreloadRegExp :: "string \<Rightarrow> string option list option" where
  "electronPreloadRegExp s =
     (case stripPrefix ''electron'' s of
        None \<Rightarrow> None
      | Some s1 \<Rightarrow>
          (case (case stripSuffix ''-preload'' s1 of
                   Some s2 \<Rightarrow> Some s2
                 | None \<Rightarrow> stripSuffix ''-renderer'' s1) of
             None \<Rightarrow> None
           | Some s2 \<Rightarrow>
               (case versionGroups s2 of
                  None \<Rightarrow> None
                | Some g2 \<Rightarrow> Some [Some s2, g2])))"

text \<open>\<open>/^(?:nwjs|node-webkit)(\d+(?:\.(\d+))?)$/\<close>\<close>

definition nwjsRegExp :: "string \<Rightarrow> string option list option" where
  "nwjsRegExp s =
     (case (case stripPrefix ''nwjs'' s of
              Some s1 \<Rightarrow> Some s1
            | None \<Rightarrow> stripPrefix ''node-webkit'' s) of
        None \<Rightarrow> None
      | Some s1 \<Rightarrow>
          (case versionGroups s1 of
             None \<Rightarrow> None
           | Some g2 \<Rightarrow> Some [Some s1, g2]))"

text \<open>\<open>/^es(\d+)$/\<close>\<close>

definition esRegExp :: "string \<Rightarrow> string option list option" where
  "esRegExp s =
     (case stripPrefix ''es'' s of
        None \<Rightarrow> None
      | Some s1 \<Rightarrow> (if digits s1 then Some [Some s1] else None))"

subsection \<open>The handlers\<close>

text \<open>
  A handler is called as \<open>handler(...args)\<close> with the capture groups; a parameter
  beyond the groups supplied is \<open>undefined\<close>.
\<close>

definition arg :: "string option list \<Rightarrow> nat \<Rightarrow> string option" where
  "arg args i = (if i < length args then args ! i else None)"

definition nodeHandler :: "string option list \<Rightarrow> target_properties" where
  "nodeHandler args =
     (let asyncFlag = arg args 0; major = arg args 1; minor = arg args 2;
          v = versionDependent major minor
      in [(''node'', JTrue),
          (''electronMain'', JFalse),
          (''electronPreload'', JFalse),
          (''nwjs'', JFalse),
          (''web'', JFalse),
          (''require'', ofBool (\<not> truthy asyncFlag)),
          (''global'', JTrue),
          (''document'', JFalse),
          (''fetchWasm'', JFalse),
          (''importScripts'', JFalse),
          (''importScriptsInWorker'', JFalse),
          (''globalThis'', v 12 None),
          (''const'', v 6 None),
          (''arrowFunctions'', v 6 None),
          (''forOf'', v 5 None),
          (''destructuring'', v 6 None),
          (''bigInitLiteral'', v 10 (Some 4)),
          (''import'', v 12 (Some 17)),
          (''module'', v 12 (Some 17))])"

definition webHandler :: "string option list \<Rightarrow> target_properties" where
  "webHandler args =
     [(''web'', JTrue),
      (''node'', JFalse),
      (''electronMain'', JFalse),
      (''electronPreload'', JFalse),
      (''nwjs'', JFalse),
      (''document'', JTrue),
      (''importScriptsInWorker'', JTrue),
      (''fetchWasm'', JTrue),
      (''importScripts'', JFalse),
      (''require'', JFalse),
      (''global'', JFalse)]"

definition webworkerHandler :: "string option list \<Rightarrow> target_properties" where
  "webworkerHandler args =
     [(''web'', JTrue),
      (''node'', JFalse),
      (''electronMain'', JFalse),
      (''electronPreload'', JFalse),
      (''nwjs'', JFalse),
      (''importScripts'', JTrue),
      (''importScriptsInWorker'', JTrue),
      (''fetchWasm'', JTrue),
      (''require'', JFalse),
      (''document'', JFalse),
      (''global'', JFalse)]"

definition electronMainHandler :: "string option list \<Rightarrow> target_properties" where
  "electronMainHandler args =
     (let major = arg args 0; minor = arg args 1;
          v = versionDependent major minor
      in [(''node'', JTrue),
          (''electronMain'', JTrue),
          (''electronPreload'', JFalse),
          (''web'', JFalse),
          (''nwjs'', JFalse),
          (''global'', JTrue),
          (''document'', JFalse),
          (''fetchWasm'', JFalse),
          (''importScripts'', JFalse),
          (''importScriptsInWorker'', JFalse),
          (''require'', JFalse),
          (''globalThis'', v 5 None),
          (''const'', v 1 (Some 1)),
          (''arrowFunctions'', v 1 (Some 1)),
          (''forOf'', v 0 (Some 36)),
          (''destructuring'', v 1 (Some 1)),
          (''bigInitLiteral'', v 4 None),
          (''import'', v 11 None),
          (''module'', v 11 None)])"

definition electronPreloadHandler :: "string option list \<Rightarrow> target_properties" where
  "electronPreloadHandler args =
     (let major = arg args 0; minor = arg args 1;
          v = versionDependent major minor
      in [(''node'', JTrue),
          (''web'', JTrue),
          (''electronPreload'', JTrue),
          (''electronMain'', JFalse),
          (''nwjs'', JFalse),
          (''global'', JTrue),
          (''require'', JFalse),
          (''importScriptsInWorker'', JFalse),
          (''importScripts'', JFalse),
          (''fetchWasm'', JFalse),
          (''document'', JFalse),
          (''globalThis'', v 5 None),
          (''const'', v 1 (Some 1)),
          (''arrowFunctions'', v 1 (Some 1)),
          (''forOf'', v 0 (Some 36)),
          (''destructuring'', v 1 (Some 1)),
          (''bigInitLiteral'', v 4 None),
          (''import'', v 11 None),
          (''module'', v 11 None)])"

definition nwjsHandler :: "string option list \<Rightarrow> target_properties" where
  "nwjsHandler args =
     (let major = arg args 0; minor = arg args 1;
          v = versionDependent major minor
      in [(''node'', JTrue),
          (''web'', JTrue),
          (''nwjs'', JTrue),
          (''electronMain'', JFalse),
          (''electronPreload'', JFalse),
          (''global'', JTrue),
          (''document'', JFalse),
          (''importScriptsInWorker'', JFalse),
          (''fetchWasm'', JFalse),
          (''importScripts'', JFalse),
          (''require'', JFalse),
          (''globalThis'', v 0 (Some 43)),
          (''const'', v 0 (Some 15)),
          (''arrowFunctions'', v 0 (Some 15)),
          (''forOf'', v 0 (Some 13)),
          (''destructuring'', v 0 (Some 15)),
          (''bigInitLiteral'', v 0 (Some 32)),
          (''import'', v 0 (Some 43)),
          (''module'', v 0 (Some 43))])"

text \<open>
  \<open>let v = +version; if (v > 1000) v = v - 2009;\<close> and then every property is
  \<open>v >= 6\<close>.
\<close>

definition esHandler :: "string option list \<Rightarrow> target_properties" where
  "esHandler args =
     (let version = arg args 0;
          v0 = toNumber version;
          v = (if numGt v0 (Number 1000) then numSub v0 (Number 2009) else v0);
          b = ofBool (numGe v (Number 6))
      in [(''globalThis'', b),
          (''const'', b),
          (''arrowFunctions'', b),
          (''forOf'', b),
          (''destructuring'', b),
          (''bigInitLiteral'', b),
          (''import'', b),
          (''module'', b)])"

subsection \<open>The table \<open>TARGETS\<close>\<close>

type_synonym target_entry =
  "string \<times> string \<times> (string \<Rightarrow> string option list option) \<times>
   (string option list \<Rightarrow> target_properties)"

definition TARGETS :: "target_entry list" where
  "TARGETS =
     [(''[async-]node[X[.Y]]'',
       ''Node.js in version X.Y. The 'async-' prefix will load chunks asynchronously via 'fs' and 'vm' instead of 'require()'. Examples: node14.5, async-node10.'',
       nodeRegExp, nodeHandler),
      (''web'', ''Web browser.'', webRegExp, webHandler),
      (''webworker'', ''Web Worker, SharedWorker or Service Worker.'',
       webworkerRegExp, webworkerHandler),
      (''electron[X[.Y]]-main'',
       ''Electron in version X.Y. Script is running in main context.'',
       electronMainRegExp, electronMainHandler),
      (''electron[X[.Y]]-preload / electron[X[.Y]]-renderer'',
       ''Electron in version X.Y. Script is running in preload or renderer context.'',
       electronPreloadRegExp, electronPreloadHandler),
      (''nwjs[X[.Y]] / node-webkit[X[.Y]]'', ''NW.js in version X.Y.'',
       nwjsRegExp, nwjsHandler),
      (''esX'', ''EcmaScript in this version. Examples: es5, es2020.'',
       esRegExp, esHandler)]"

subsection \<open>\<open>getTargetProperties\<close>\<close>

datatype error = Error string

text \<open>
  The loop over the table. A handler returns an object, which is truthy, so the test
  \<open>if (result)\<close> always passes and the first entry whose expression matches decides.
\<close>

fun findTarget :: "target_entry list \<Rightarrow> string \<Rightarrow> target_properties option" where
  "findTarget [] target = None"
| "findTarget ((name, description, regExp, handler) # rest) target =
     (case regExp target of
        Some args \<Rightarrow> Some (handler args)
      | None \<Rightarrow> findTarget rest target)"

fun join :: "string \<Rightarrow> string list \<Rightarrow> string" where
  "join sep [] = []"
| "join sep [x] = x"
| "join sep (x # y # ys) = x @ sep @ join sep (y # ys)"

definition unknownTargetMessage :: "string \<Rightarrow> string" where
  "unknownTargetMessage target =
     ''Unknown target '' @ [CHR 0x27] @ target @ [CHR 0x27] @
     ''. The following targets are supported:'' @ [CHR 0x0A] @
     join [CHR 0x0A]
       (map (\<lambda>(name, description, regExp, handler). ''* '' @ name @ '': '' @ description) TARGETS)"

definition getTargetProperties :: "string \<Rightarrow> error + target_properties" where
  "getTargetProperties target =
     (case findTarget TARGETS target of
        Some result \<Rightarrow> Inr result
      | None \<Rightarrow> Inl (Error (unknownTargetMessage target)))"

subsection \<open>\<open>mergeTargetProperties\<close>\<close>

text \<open>
  \<open>keys\<close> is a \<open>Set\<close>, which keeps insertion order and ignores a second \<open>add\<close> of
  the same key.
\<close>

definition setAdd :: "string list \<Rightarrow> string \<Rightarrow> string list" where
  "setAdd keys key = (if key \<in> set keys then keys else keys @ [key])"

definition collectKeys :: "target_properties list \<Rightarrow> string list" where
  "collectKeys targetProperties =
     foldl (\<lambda>keys tp. foldl setAdd keys (objectKeys tp)) [] targetProperties"

definition jsTruthy :: "jsvalue \<Rightarrow> bool" where
  "jsTruthy v = (v = JTrue)"

text \<open>
  The inner loop over the objects for one key, started with \<open>merged = !any\<close>; a
  \<open>break\<close> returns the value of \<open>merged\<close> at once.
\<close>

fun mergeLoop :: "bool \<Rightarrow> string \<Rightarrow> target_properties list \<Rightarrow> jsvalue \<Rightarrow> jsvalue" where
  "mergeLoop any key [] merged = merged"
| "mergeLoop any key (tp # tps) merged =
     (let value = getProp tp key in
      if any then
        (if value = JTrue then JTrue else mergeLoop any key tps merged)
      else
        (if value = JFalse then JFalse
         else if value = JUndefined \<and> jsTruthy value then mergeLoop any key tps JUndefined
         else mergeLoop any key tps merged))"

definition mergeTargetProperties :: "target_properties list \<Rightarrow> bool \<Rightarrow> target_properties" where
  "mergeTargetProperties targetProperties any =
     foldl (\<lambda>result key. setProp result key (mergeLoop any key targetProperties (ofBool (\<not> any))))
       [] (collectKeys targetProperties)"

subsection \<open>\<open>getTargetsProperties\<close>\<close>

text \<open>
  \<open>targets.map(getTargetProperties)\<close> calls the function on the elements in order; the
  first exception ends the call. The merge runs with the default \<open>any = false\<close>.
\<close>

fun mapTargets :: "string list \<Rightarrow> error + target_properties list" where
  "mapTargets [] = Inr []"
| "mapTargets (t # ts) =
     (case getTargetProperties t of
        Inl e \<Rightarrow> Inl e
      | Inr tp \<Rightarrow> (case mapTargets ts of Inl e \<Rightarrow> Inl e | Inr tps \<Rightarrow> Inr (tp # tps)))"

definition getTargetsProperties :: "string list \<Rightarrow> error + target_properties" where
  "getTargetsProperties targets =
     (case mapTargets targets of
        Inl e \<Rightarrow> Inl e
      | Inr tps \<Rightarrow> Inr (mergeTargetProperties tps False))"

section \<open>Properties\<close>

subsection \<open>Rounding\<close>

text \<open>
  Two facts about rounding carry the comparisons below. An integer of magnitude below
  \<open>2^53\<close>, and more generally a multiple of \<open>2^(-j)\<close> below \<open>2^(53-j)\<close>, is its own
  double. A value of at least \<open>2^k\<close> rounds to at least \<open>2^k\<close>, or to \<open>Infinity\<close>.
  So a string of digits compares with an integer below \<open>2^53\<close> as its exact value does.
\<close>

lemma bitLength_upper: "n < 2 ^ bitLength n"
proof (induction n rule: bitLength.induct)
  case (1 n)
  show ?case
  proof (cases "n \<le> 0")
    case True
    then show ?thesis by (simp add: bitLength.simps)
  next
    case False
    with 1 have "n div 2 < 2 ^ bitLength (n div 2)" by simp
    then have "n < 2 * 2 ^ bitLength (n div 2)" by linarith
    with False show ?thesis by (simp add: bitLength.simps [of n])
  qed
qed

lemma bitLength_lower: "0 < n \<Longrightarrow> 2 ^ bitLength n \<le> 2 * n"
proof (induction n rule: bitLength.induct)
  case (1 n)
  show ?case
  proof (cases "n = 1")
    case True
    then show ?thesis by (simp add: bitLength.simps [of 1] bitLength.simps [of 0])
  next
    case False
    with 1(2) have pos: "0 < n div 2" by linarith
    with 1 have "2 ^ bitLength (n div 2) \<le> 2 * (n div 2)" by simp
    then have "2 * 2 ^ bitLength (n div 2) \<le> 2 * n" by linarith
    with 1(2) show ?thesis by (simp add: bitLength.simps [of n])
  qed
qed

lemma bitLength_pos: "0 < n \<Longrightarrow> 0 < bitLength n"
  by (simp add: bitLength.simps [of n])

lemma binaryExponent_ge1:
  assumes "1 \<le> x"
  obtains b where "0 < b" "binaryExponent x = int b - 1"
    "2 ^ b \<le> 2 * x" "x < 2 ^ b"
proof -
  let ?n = "\<lfloor>x\<rfloor>"
  let ?b = "bitLength ?n"
  from assms have n: "0 < ?n" by simp
  have "?n < 2 ^ ?b" by (rule bitLength_upper)
  then have up: "x < 2 ^ ?b"
    by (metis floor_less_iff of_int_numeral of_int_power)
  from n have "2 ^ ?b \<le> 2 * ?n" by (rule bitLength_lower)
  then have "(of_int (2 ^ ?b) :: rat) \<le> of_int (2 * ?n)" by (simp only: of_int_le_iff)
  also have "\<dots> \<le> 2 * x" by simp
  finally have lo: "2 ^ ?b \<le> 2 * x" by simp
  from assms have "binaryExponent x = int ?b - 1" by (simp add: binaryExponent_def)
  with bitLength_pos [OF n] lo up show ?thesis using that [of ?b] by blast
qed

lemma roundHalfEven_of_int: "roundHalfEven (of_int m) = m"
  by (simp add: roundHalfEven_def)

lemma roundHalfEven_ge: "of_int m \<le> q \<Longrightarrow> m \<le> roundHalfEven q"
proof -
  assume "of_int m \<le> q"
  then have "m \<le> \<lfloor>q\<rfloor>" by (simp add: le_floor_iff)
  then show ?thesis by (simp add: roundHalfEven_def Let_def)
qed


lemma powi_neg_nat: "(2::rat) powi (- int k) = 1 / 2 ^ k"
  by (simp add: power_int_minus field_simps)

lemma roundPositive_dyadic:
  assumes "1 \<le> x" "x < 2 ^ (53 - j)" "j \<le> 53" "x * 2 ^ j = of_int m"
  shows "roundPositive x = Number x"
proof -
  from assms(1) obtain b where b: "0 < b" "binaryExponent x = int b - 1"
    "2 ^ b \<le> 2 * x" "x < 2 ^ b"
    by (rule binaryExponent_ge1)
  from b(3) assms(2) have "(2::rat) ^ b < 2 ^ Suc (53 - j)" by simp
  then have "b < Suc (53 - j)" by (simp only: power_strict_increasing_iff) 
  with assms(3) have bj: "b + j \<le> 53" by simp
  define k where "k = 53 - b - j"
  with bj have k: "53 - b = k + j" by simp
  from b(1,2) have e: "max (binaryExponent x) (- 1022) - 52 = - int (53 - b)"
    using bj by simp
  have ulp: "(2::rat) powi (max (binaryExponent x) (- 1022) - 52) = 1 / 2 ^ (53 - b)"
    by (simp only: e powi_neg_nat)
  have q: "x / (1 / 2 ^ (53 - b)) = of_int (m * 2 ^ k)"
    using assms(4) by (simp add: k power_add mult.commute mult.left_commute)
  have r: "of_int (m * 2 ^ k) * (1 / 2 ^ (53 - b)) = x"
    using q by (simp add: field_simps)
  have small: "\<not> (2::rat) powi 1024 \<le> x"
  proof -
    have "(2::rat) ^ (53 - j) \<le> 2 ^ 53" by (rule power_increasing) simp_all
    with assms(2) have "x < 2 ^ 53" by (rule less_le_trans)
    also have "\<dots> \<le> (2::rat) ^ 1024" by (rule power_increasing) simp_all
    finally show ?thesis by simp
  qed
  show ?thesis
    unfolding roundPositive_def Let_def ulp q roundHalfEven_of_int r
    using small by simp
qed

lemma powi_diff_nat: "(2::rat) powi (int a - int c) = 2 ^ a / 2 ^ c"
  by (simp add: power_int_diff)

lemma roundPositive_lower:
  assumes "2 ^ k \<le> x"
  shows "roundPositive x = PosInfinity \<or> (\<exists>r. roundPositive x = Number r \<and> 2 ^ k \<le> r)"
proof -
  have "(1::rat) \<le> 2 ^ k" by simp
  with assms have "1 \<le> x" by linarith
  then obtain b where b: "0 < b" "binaryExponent x = int b - 1"
    "2 ^ b \<le> 2 * x" "x < 2 ^ b"
    by (rule binaryExponent_ge1)
  from b(1) obtain c where c: "b = Suc c" by (cases b) simp_all
  from assms b(4) have "(2::rat) ^ k < 2 ^ b" by (rule le_less_trans)
  then have "k < b" by (simp only: power_strict_increasing_iff)
  with c have kc: "k \<le> c" by simp
  from b(3) c have cx: "2 ^ c \<le> x" by simp
  define ulp :: rat where "ulp = 2 ^ c / 2 ^ 52"
  have ulp_pos: "0 < ulp" by (simp add: ulp_def)
  from b(2) c have "max (binaryExponent x) (- 1022) - 52 = int c - int 52" by simp
  then have ulp: "2 powi (max (binaryExponent x) (- 1022) - 52) = ulp"
    unfolding ulp_def by (simp only: powi_diff_nat)
  have half: "of_int (2 ^ 52) * ulp = 2 ^ c"
    by (simp add: ulp_def)
  with cx have "of_int (2 ^ 52) * ulp \<le> x" by simp
  with ulp_pos have "of_int (2 ^ 52) \<le> x / ulp"
    by (simp only: pos_le_divide_eq)
  then have "2 ^ 52 \<le> roundHalfEven (x / ulp)"
    by (rule roundHalfEven_ge)
  then have "(of_int (2 ^ 52) :: rat) \<le> of_int (roundHalfEven (x / ulp))"
    by (simp only: of_int_le_iff)
  with ulp_pos have "of_int (2 ^ 52) * ulp \<le> of_int (roundHalfEven (x / ulp)) * ulp"
    by (simp only: mult_le_cancel_right_pos)
  with half have "2 ^ c \<le> of_int (roundHalfEven (x / ulp)) * ulp"
    by (simp only:)
  moreover from kc have "(2::rat) ^ k \<le> 2 ^ c"
    by (intro power_increasing) simp_all
  ultimately have "2 ^ k \<le> of_int (roundHalfEven (x / ulp)) * ulp"
    by linarith
  then show ?thesis
    unfolding roundPositive_def Let_def ulp by simp
qed

lemma roundDouble_of_int:
  assumes "\<bar>z\<bar> < 2 ^ 53"
  shows "roundDouble (of_int z) = Number (of_int z)"
proof -
  have pos: "roundPositive (of_int n) = Number (of_int n)" if "0 < n" "n < 2 ^ 53" for n :: int
  proof (rule roundPositive_dyadic [where j = 0 and m = n])
    from that(1) show "(1::rat) \<le> of_int n" by simp
    from that(2) have "(of_int n :: rat) < of_int (2 ^ 53)" by (simp only: of_int_less_iff)
    then show "(of_int n :: rat) < 2 ^ (53 - 0)" by simp
  qed simp_all
  consider "z = 0" | "0 < z" | "z < 0" by linarith
  then show ?thesis
  proof cases
    case 1
    then show ?thesis by (simp add: roundDouble_def)
  next
    case 2
    with assms pos [of z] show ?thesis by (simp add: roundDouble_def)
  next
    case 3
    with assms pos [of "- z"] show ?thesis by (simp add: roundDouble_def)
  qed
qed

lemma roundDouble_of_nat: "M < 2 ^ 53 \<Longrightarrow> roundDouble (of_nat M) = Number (of_nat M)"
  using roundDouble_of_int [of "int M"] by simp

lemma roundDouble_large:
  assumes "2 ^ k \<le> x"
  shows "roundDouble x = PosInfinity \<or> (\<exists>r. roundDouble x = Number r \<and> 2 ^ k \<le> r)"
proof -
  have "(0::rat) < 2 ^ k" by simp
  with assms have "0 < x" by linarith
  then have "roundDouble x = roundPositive x" by (simp add: roundDouble_def)
  with roundPositive_lower [OF assms] show ?thesis by simp
qed

lemma roundDouble_nat_cases:
  obtains "M < 2 ^ 53" "roundDouble (of_nat M) = Number (of_nat M)"
  | "2 ^ 53 \<le> M" "roundDouble (of_nat M) = PosInfinity"
  | r where "2 ^ 53 \<le> M" "roundDouble (of_nat M) = Number r" "2 ^ 53 \<le> r"
proof (cases "M < 2 ^ 53")
  case True
  then show ?thesis using roundDouble_of_nat that(1) by blast
next
  case False
  then have M: "2 ^ 53 \<le> M" by simp
  then have "(of_nat (2 ^ 53) :: rat) \<le> of_nat M" by (simp only: of_nat_le_iff)
  then have "(2::rat) ^ 53 \<le> of_nat M" by simp
  from roundDouble_large [OF this] M show ?thesis using that(2,3) by blast
qed

lemma numGt_nat:
  assumes "V < 2 ^ 53"
  shows "numGt (roundDouble (of_nat M)) (Number (of_nat V)) = (V < M)"
proof (cases M rule: roundDouble_nat_cases)
  case 1
  then show ?thesis by simp
next
  case 2
  with assms show ?thesis by simp
next
  case (3 r)
  from assms have "(of_nat V :: rat) < of_nat (2 ^ 53)" by (simp only: of_nat_less_iff)
  with 3(3) have "of_nat V < r" by simp
  with 3 assms show ?thesis by simp
qed

lemma numEq_nat:
  assumes "V < 2 ^ 53"
  shows "numEq (roundDouble (of_nat M)) (Number (of_nat V)) = (M = V)"
proof (cases M rule: roundDouble_nat_cases)
  case 1
  then show ?thesis by simp
next
  case 2
  with assms show ?thesis by auto
next
  case (3 r)
  from assms have "(of_nat V :: rat) < of_nat (2 ^ 53)" by (simp only: of_nat_less_iff)
  with 3(3) have "of_nat V < r" by simp
  with 3 assms show ?thesis by auto
qed

lemma numGe_nat:
  assumes "V < 2 ^ 53"
  shows "numGe (roundDouble (of_nat M)) (Number (of_nat V)) = (V \<le> M)"
proof (cases M rule: roundDouble_nat_cases)
  case 1
  then show ?thesis by simp
next
  case 2
  with assms show ?thesis by simp
next
  case (3 r)
  from assms have "(of_nat V :: rat) < of_nat (2 ^ 53)" by (simp only: of_nat_less_iff)
  with 3(3) have "of_nat V \<le> r" by simp
  with 3 assms show ?thesis by simp
qed

subsection \<open>Merging\<close>

lemma set_foldl_setAdd: "set (foldl setAdd keys ks) = set keys \<union> set ks"
  by (induction ks arbitrary: keys) (auto simp: setAdd_def)

lemma set_collectKeys_from:
  "set (foldl (\<lambda>keys tp. foldl setAdd keys (objectKeys tp)) keys0 tps) =
     set keys0 \<union> (\<Union>tp\<in>set tps. set (objectKeys tp))"
  by (induction tps arbitrary: keys0) (auto simp: set_foldl_setAdd)

lemma set_collectKeys: "set (collectKeys tps) = (\<Union>tp\<in>set tps. set (objectKeys tp))"
  by (simp add: collectKeys_def set_collectKeys_from)

lemma map_of_setProp: "map_of (setProp tp key v) = (map_of tp)(key \<mapsto> v)"
  by (induction tp key v rule: setProp.induct) auto

lemma map_of_foldl_setProp:
  "map_of (foldl (\<lambda>result key. setProp result key (f key)) r0 ks) k =
     (if k \<in> set ks then Some (f k) else map_of r0 k)"
  by (induction ks arbitrary: r0) (auto simp: map_of_setProp)

lemma map_of_mergeTargetProperties:
  "map_of (mergeTargetProperties tps any) k =
     (if \<exists>tp\<in>set tps. k \<in> set (objectKeys tp)
      then Some (mergeLoop any k tps (ofBool (\<not> any))) else None)"
  by (simp add: mergeTargetProperties_def map_of_foldl_setProp set_collectKeys)

lemma mergeLoop_all:
  "merged \<noteq> JFalse \<Longrightarrow> mergeLoop False key tps merged =
     (if \<exists>tp\<in>set tps. getProp tp key = JFalse then JFalse else merged)"
  by (induction tps arbitrary: merged) (auto simp: jsTruthy_def Let_def)

lemma mergeLoop_any:
  "mergeLoop True key tps merged =
     (if \<exists>tp\<in>set tps. getProp tp key = JTrue then JTrue else merged)"
  by (induction tps arbitrary: merged) (auto simp: Let_def)

lemma getProp_eq_iff:
  "v \<noteq> JUndefined \<Longrightarrow> getProp tp key = v \<longleftrightarrow> map_of tp key = Some v"
  by (auto simp: getProp_def split: option.splits)

text \<open>
  C2. Conjunctive merge (\<open>any = false\<close>): a key of at least one input object is in the
  result, with \<open>false\<close> if some input holds \<open>false\<close> under it and \<open>true\<close> otherwise,
  whatever the other inputs hold or lack; a key of no input object is not in the result.
\<close>

theorem mergeTargetProperties_all:
  "map_of (mergeTargetProperties tps False) key =
     (if \<exists>tp\<in>set tps. key \<in> set (objectKeys tp)
      then Some (if \<exists>tp\<in>set tps. map_of tp key = Some JFalse then JFalse else JTrue)
      else None)"
  by (simp add: map_of_mergeTargetProperties mergeLoop_all ofBool_def getProp_eq_iff)

theorem mergeTargetProperties_all_witness:
  "map_of (mergeTargetProperties [[(''a'', JTrue)], [(''a'', JTrue)]] False) ''a'' = Some JTrue \<and>
   map_of (mergeTargetProperties [[(''a'', JTrue)], [(''a'', JFalse)]] False) ''a'' = Some JFalse \<and>
   map_of (mergeTargetProperties [[(''a'', JTrue)], []] False) ''a'' = Some JTrue \<and>
   map_of (mergeTargetProperties [[(''a'', JUndefined)], [(''b'', JTrue)]] False) ''a'' = Some JTrue \<and>
   map_of (mergeTargetProperties [[(''a'', JTrue)], []] False) ''b'' = None"
  using mergeTargetProperties_all [of "[[(''a'', JTrue)], [(''a'', JTrue)]]" "''a''"]
        mergeTargetProperties_all [of "[[(''a'', JTrue)], [(''a'', JFalse)]]" "''a''"]
        mergeTargetProperties_all [of "[[(''a'', JTrue)], []]" "''a''"]
        mergeTargetProperties_all [of "[[(''a'', JUndefined)], [(''b'', JTrue)]]" "''a''"]
        mergeTargetProperties_all [of "[[(''a'', JTrue)], []]" "''b''"]
  by (simp add: objectKeys_def)

text \<open>
  C6. Disjunctive merge (\<open>any = true\<close>): a key of at least one input object is in the
  result, with \<open>true\<close> if some input holds \<open>true\<close> under it and \<open>false\<close> otherwise
  (never \<open>undefined\<close>), whatever the other inputs hold or lack.
\<close>

theorem mergeTargetProperties_any:
  "map_of (mergeTargetProperties tps True) key =
     (if \<exists>tp\<in>set tps. key \<in> set (objectKeys tp)
      then Some (if \<exists>tp\<in>set tps. map_of tp key = Some JTrue then JTrue else JFalse)
      else None)"
  by (simp add: map_of_mergeTargetProperties mergeLoop_any ofBool_def getProp_eq_iff)

theorem mergeTargetProperties_any_witness:
  "map_of (mergeTargetProperties [[(''a'', JFalse)], [(''a'', JTrue)]] True) ''a'' = Some JTrue \<and>
   map_of (mergeTargetProperties [[(''a'', JFalse)], []] True) ''a'' = Some JFalse \<and>
   map_of (mergeTargetProperties [[(''a'', JUndefined)], []] True) ''a'' = Some JFalse \<and>
   map_of (mergeTargetProperties [[(''a'', JFalse)], []] True) ''b'' = None"
  using mergeTargetProperties_any [of "[[(''a'', JFalse)], [(''a'', JTrue)]]" "''a''"]
        mergeTargetProperties_any [of "[[(''a'', JFalse)], []]" "''a''"]
        mergeTargetProperties_any [of "[[(''a'', JUndefined)], []]" "''a''"]
        mergeTargetProperties_any [of "[[(''a'', JFalse)], []]" "''b''"]
  by (simp add: objectKeys_def)

subsection \<open>The version comparator\<close>

lemma takeWhile_digits: "list_all isDigit s \<Longrightarrow> takeWhile isDigit s = s"
  by (induction s) auto

lemma dropWhile_digits: "list_all isDigit s \<Longrightarrow> dropWhile isDigit s = []"
  by (induction s) auto

lemma toNumber_digits:
  "digits s \<Longrightarrow> toNumber (Some s) = roundDouble (of_nat (decimal s))"
  by (simp add: toNumber_def digits_def takeWhile_digits dropWhile_digits)

lemma roundDouble_numeral:
  "(numeral k :: int) < 2 ^ 53 \<Longrightarrow> roundDouble (numeral k) = Number (numeral k)"
  using roundDouble_of_int [of "numeral k"] by simp

lemma roundDouble_zero: "roundDouble 0 = Number 0"
  by (simp add: roundDouble_def)

lemma roundDouble_one: "roundDouble 1 = Number 1"
  using roundDouble_of_int [of 1] by simp

lemma roundDouble_25_2: "roundDouble (25 / 2) = Number (25 / 2)"
proof -
  have "roundPositive (25 / 2) = Number (25 / 2)"
    by (rule roundPositive_dyadic [where j = 1 and m = 25]) simp_all
  then show ?thesis
    by (simp add: roundDouble_def)
qed

lemma versionDependent_truthy:
  "s \<noteq> [] \<Longrightarrow> versionDependent (Some s) minor vMajor vMinor \<noteq> JUndefined"
  by (simp add: versionDependent_def truthy_def Let_def ofBool_def)

text \<open>
  C5. Without a major version the comparator answers \<open>undefined\<close> for every baseline.
  With a major version (a string of digits, and a minor version that is absent or a
  string of digits) it answers \<open>true\<close> if the major version is greater than the
  baseline's, or equal to it with a minor version at least the baseline's, and \<open>false\<close>
  otherwise; an absent minor version, requested or baseline, counts as 0. The baseline
  is a pair of integers that a double holds exactly.
\<close>

theorem versionDependent_contract:
  "versionDependent None minor vMajor vMinor = JUndefined \<and>
   (digits major \<and> (\<forall>m. minor = Some m \<longrightarrow> digits m) \<and>
    vMajor < 2 ^ 53 \<and> (\<forall>n. vMinor = Some n \<longrightarrow> n < 2 ^ 53) \<longrightarrow>
      versionDependent (Some major) minor vMajor vMinor =
        ofBool (decimal major > vMajor \<or>
                (decimal major = vMajor \<and>
                 (case minor of None \<Rightarrow> 0 | Some m \<Rightarrow> decimal m) \<ge>
                 (case vMinor of None \<Rightarrow> 0 | Some n \<Rightarrow> n))))"
proof (intro conjI impI)
  show "versionDependent None minor vMajor vMinor = JUndefined"
    by (simp add: versionDependent_def truthy_def)
next
  assume h: "digits major \<and> (\<forall>m. minor = Some m \<longrightarrow> digits m) \<and>
    vMajor < 2 ^ 53 \<and> (\<forall>n. vMinor = Some n \<longrightarrow> n < 2 ^ 53)"
  then have major: "toNumber (Some major) = roundDouble (of_nat (decimal major))"
    and "major \<noteq> []"
    by (simp_all add: toNumber_digits) (simp add: digits_def)
  from h have vMajor: "vMajor < 2 ^ 53"
    and vMinor: "(case vMinor of None \<Rightarrow> 0 | Some n \<Rightarrow> n) < 2 ^ 53"
    by (simp_all split: option.splits)
  note cmp = numGt_nat [OF vMajor] numEq_nat [OF vMajor]
  show "versionDependent (Some major) minor vMajor vMinor =
        ofBool (decimal major > vMajor \<or>
                (decimal major = vMajor \<and>
                 (case minor of None \<Rightarrow> 0 | Some m \<Rightarrow> decimal m) \<ge>
                 (case vMinor of None \<Rightarrow> 0 | Some n \<Rightarrow> n)))"
  proof (cases minor)
    case None
    with major \<open>major \<noteq> []\<close> show ?thesis
      by (simp add: versionDependent_def truthy_def Let_def cmp)
  next
    case (Some m)
    with h have "digits m" by simp
    then have "toNumber (Some m) = roundDouble (of_nat (decimal m))" and "m \<noteq> []"
      by (simp_all add: toNumber_digits) (simp add: digits_def)
    with Some major \<open>major \<noteq> []\<close> show ?thesis
      by (simp add: versionDependent_def truthy_def Let_def cmp numGe_nat [OF vMinor])
  qed
qed

theorem versionDependent_contract_witness:
  "digits ''14'' \<and> digits ''5'' \<and>
   versionDependent None None 12 (Some 17) = JUndefined \<and>
   versionDependent (Some ''14'') (Some ''5'') 12 (Some 17) = JTrue \<and>
   versionDependent (Some ''12'') (Some ''5'') 12 (Some 17) = JFalse \<and>
   versionDependent (Some ''12'') None 12 None = JTrue"
  using versionDependent_contract [of None 12 "Some 17" "''14''"]
        versionDependent_contract [of "Some ''5''" 12 "Some 17" "''14''"]
        versionDependent_contract [of "Some ''5''" 12 "Some 17" "''12''"]
        versionDependent_contract [of None 12 None "''12''"]
  by (simp add: digits_def isDigit_def decimal_def digitValue_def ofBool_def)

subsection \<open>Single targets\<close>

lemmas regExp_defs =
  nodeRegExp_def webRegExp_def webworkerRegExp_def electronMainRegExp_def
  electronPreloadRegExp_def nwjsRegExp_def esRegExp_def stripSuffix_def
  versionGroups_def digits_def isDigit_def

lemmas handler_defs =
  nodeHandler_def webHandler_def webworkerHandler_def electronMainHandler_def
  electronPreloadHandler_def nwjsHandler_def esHandler_def arg_def
  versionDependent_def truthy_def toNumber_def decimal_def digitValue_def ofBool_def
  roundDouble_numeral roundDouble_zero roundDouble_one roundDouble_25_2

text \<open>
  C1. The specification has \<open>node14.5\<close> resolve to the Node.js properties, and the
  description of the first entry gives it as an example. The expression of that entry
  demands the \<open>async-\<close> prefix, no other entry matches, and the call throws.
\<close>

theorem node14_5_throws:
  "getTargetProperties ''node14.5'' = Inl (Error (unknownTargetMessage ''node14.5''))"
  by (simp add: getTargetProperties_def TARGETS_def regExp_defs)

text \<open>
  C3. The specification has the prefix and the version optional, as the name
  \<open>[async-]node[X[.Y]]\<close> of the entry has, and \<open>node\<close> resolve with every syntax
  property \<open>undefined\<close>. Neither is optional in the expression: \<open>node\<close> and
  \<open>async-node\<close> match no entry and the call throws.
\<close>

theorem node_without_version_throws:
  "getTargetProperties ''node'' = Inl (Error (unknownTargetMessage ''node'')) \<and>
   getTargetProperties ''async-node'' = Inl (Error (unknownTargetMessage ''async-node''))"
  by (simp add: getTargetProperties_def TARGETS_def regExp_defs)

text \<open>
  C4. The specification has \<open>import\<close> and \<open>module\<close> \<open>false\<close> for a Node.js version
  12.Y with \<open>Y < 17\<close>, as the table's \<open>v(12, 17)\<close> intends. The second group of the
  expression captures the whole of \<open>12.5\<close>, the handler takes it for the major
  version, and \<open>12.5 > 12\<close> makes both \<open>true\<close>. With no minor part, as in
  \<open>async-node10\<close>, \<open>require\<close>, \<open>bigInitLiteral\<close>, \<open>import\<close> and \<open>module\<close> are
  \<open>false\<close>.
\<close>

theorem async_node12_5_import:
  "getTargetProperties ''async-node12.5'' =
     Inr [(''node'', JTrue), (''electronMain'', JFalse), (''electronPreload'', JFalse),
          (''nwjs'', JFalse), (''web'', JFalse), (''require'', JFalse), (''global'', JTrue),
          (''document'', JFalse), (''fetchWasm'', JFalse), (''importScripts'', JFalse),
          (''importScriptsInWorker'', JFalse), (''globalThis'', JTrue), (''const'', JTrue),
          (''arrowFunctions'', JTrue), (''forOf'', JTrue), (''destructuring'', JTrue),
          (''bigInitLiteral'', JTrue), (''import'', JTrue), (''module'', JTrue)] \<and>
   getTargetProperties ''async-node10'' =
     Inr [(''node'', JTrue), (''electronMain'', JFalse), (''electronPreload'', JFalse),
          (''nwjs'', JFalse), (''web'', JFalse), (''require'', JFalse), (''global'', JTrue),
          (''document'', JFalse), (''fetchWasm'', JFalse), (''importScripts'', JFalse),
          (''importScriptsInWorker'', JFalse), (''globalThis'', JFalse), (''const'', JTrue),
          (''arrowFunctions'', JTrue), (''forOf'', JTrue), (''destructuring'', JTrue),
          (''bigInitLiteral'', JFalse), (''import'', JFalse), (''module'', JFalse)]"
  by (simp add: getTargetProperties_def TARGETS_def regExp_defs handler_defs)

text \<open>
  What the node entry does on every input of the two shapes. With a major version only,
  the comparator sees that version with minor 0. With a minor part, the second group
  holds the whole version text.
\<close>

lemma versionGroups_digits: "digits ds \<Longrightarrow> versionGroups ds = Some None"
  by (auto simp: versionGroups_def digits_def takeWhile_digits dropWhile_digits)

lemma versionGroups_minor:
  assumes "digits major" "digits minor"
  shows "versionGroups (major @ ''.'' @ minor) = Some (Some minor)"
proof -
  from assms(1) have all: "\<And>c. c \<in> set major \<Longrightarrow> isDigit c" and ne: "major \<noteq> []"
    by (auto simp: digits_def list_all_iff)
  have dot: "\<not> isDigit CHR ''.''"
    by (simp add: isDigit_def)
  from all dot have "takeWhile isDigit (major @ ''.'' @ minor) = major"
    by (simp add: takeWhile_append2)
  moreover from all dot have "dropWhile isDigit (major @ ''.'' @ minor) = ''.'' @ minor"
    by (simp add: dropWhile_append2)
  ultimately show ?thesis
    using ne assms(2) by (simp add: versionGroups_def)
qed

lemma nodeRegExp_major_only:
  "digits ds \<Longrightarrow> nodeRegExp (''async-node'' @ ds) = Some [Some ''async-'', Some ds, None]"
  by (simp add: nodeRegExp_def versionGroups_digits)

lemma nodeRegExp_with_minor:
  "digits major \<Longrightarrow> digits minor \<Longrightarrow>
     nodeRegExp (''async-node'' @ major @ ''.'' @ minor) =
       Some [Some ''async-'', Some (major @ ''.'' @ minor), Some minor]"
  using versionGroups_minor [of major minor] by (simp add: nodeRegExp_def)

lemma async_node_major_only:
  assumes "digits ds"
  shows "getTargetProperties (''async-node'' @ ds) =
     Inr [(''node'', JTrue), (''electronMain'', JFalse), (''electronPreload'', JFalse),
          (''nwjs'', JFalse), (''web'', JFalse), (''require'', JFalse), (''global'', JTrue),
          (''document'', JFalse), (''fetchWasm'', JFalse), (''importScripts'', JFalse),
          (''importScriptsInWorker'', JFalse),
          (''globalThis'', ofBool (12 \<le> decimal ds)),
          (''const'', ofBool (6 \<le> decimal ds)),
          (''arrowFunctions'', ofBool (6 \<le> decimal ds)),
          (''forOf'', ofBool (5 \<le> decimal ds)),
          (''destructuring'', ofBool (6 \<le> decimal ds)),
          (''bigInitLiteral'', ofBool (10 < decimal ds)),
          (''import'', ofBool (12 < decimal ds)),
          (''module'', ofBool (12 < decimal ds))]"
proof -
  from assms have n: "toNumber (Some ds) = roundDouble (of_nat (decimal ds))"
    and ne: "ds \<noteq> []"
    by (simp_all add: toNumber_digits digits_def)
  have le: "\<And>k. (k < decimal ds \<or> decimal ds = k) = (k \<le> decimal ds)"
    by auto
  have v: "\<And>k. k < 2 ^ 53 \<Longrightarrow>
      versionDependent (Some ds) None k None = ofBool (k \<le> decimal ds)"
    by (simp add: versionDependent_def truthy_def ne n Let_def numGt_nat numEq_nat le)
  have w: "\<And>k j. k < 2 ^ 53 \<Longrightarrow> 0 < j \<Longrightarrow>
      versionDependent (Some ds) None k (Some j) = ofBool (k < decimal ds)"
    by (simp add: versionDependent_def truthy_def ne n Let_def numGt_nat numEq_nat)
  from nodeRegExp_major_only [OF assms]
  have "findTarget TARGETS (''async-node'' @ ds) = Some (nodeHandler [Some ''async-'', Some ds, None])"
    by (simp add: TARGETS_def)
  then show ?thesis
    by (simp add: getTargetProperties_def nodeHandler_def arg_def Let_def v w truthy_def
        ofBool_def)
qed

text \<open>
  A minor part too small to move the double: \<open>+"12.00000000000000000001"\<close> is 12, so
  the comparator finds the major version equal to a baseline of 12 and goes on to the minor
  part, which is 1.
\<close>

lemma roundDouble_long_fraction: "roundDouble (12 + 1 / 10 ^ 20) = Number 12"
  by code_simp

lemma toNumber_long_fraction: "toNumber (Some ''12.00000000000000000001'') = Number 12"
proof -
  have "toNumber (Some ''12.00000000000000000001'') = roundDouble (12 + 1 / 10 ^ 20)"
    by (simp add: toNumber_def isDigit_def decimal_def digitValue_def)
  then show ?thesis by (simp only: roundDouble_long_fraction)
qed

lemma async_node_long_fraction:
  "getTargetProperties ''async-node12.00000000000000000001'' =
     Inr [(''node'', JTrue), (''electronMain'', JFalse), (''electronPreload'', JFalse),
          (''nwjs'', JFalse), (''web'', JFalse), (''require'', JFalse), (''global'', JTrue),
          (''document'', JFalse), (''fetchWasm'', JFalse), (''importScripts'', JFalse),
          (''importScriptsInWorker'', JFalse), (''globalThis'', JTrue), (''const'', JTrue),
          (''arrowFunctions'', JTrue), (''forOf'', JTrue), (''destructuring'', JTrue),
          (''bigInitLiteral'', JTrue), (''import'', JFalse), (''module'', JFalse)]"
proof -
  have minor: "toNumber (Some ''00000000000000000001'') = Number 1"
    by (simp add: toNumber_def isDigit_def decimal_def digitValue_def roundDouble_one)
  have "findTarget TARGETS ''async-node12.00000000000000000001'' =
      Some (nodeHandler [Some ''async-'', Some ''12.00000000000000000001'',
                         Some ''00000000000000000001''])"
    by (simp add: TARGETS_def regExp_defs)
  then show ?thesis
    by (simp add: getTargetProperties_def nodeHandler_def arg_def versionDependent_def
        truthy_def Let_def toNumber_long_fraction minor ofBool_def)
qed

lemma findTarget_es:
  "digits ds \<Longrightarrow> findTarget TARGETS (''es'' @ ds) = Some (esHandler [Some ds])"
  by (simp add: TARGETS_def nodeRegExp_def webRegExp_def webworkerRegExp_def
      electronMainRegExp_def electronPreloadRegExp_def nwjsRegExp_def esRegExp_def)

lemma es_edition:
  "(let v0 = roundDouble (of_nat M);
        v = (if numGt v0 (Number 1000) then numSub v0 (Number 2009) else v0)
    in numGe v (Number 6)) =
   (6 \<le> (if M > 1000 then int M - 2009 else int M))"
proof (cases M rule: roundDouble_nat_cases)
  case 1
  show ?thesis
  proof (cases "1000 < M")
    case True
    from 1(1) have "\<bar>int M - 2009\<bar> < 2 ^ 53" by simp
    then have "roundDouble (of_int (int M - 2009)) = Number (of_int (int M - 2009))"
      by (rule roundDouble_of_int)
    then have sub: "roundDouble (of_nat M - 2009) = Number (of_int (int M - 2009))"
      by simp
    have "(6 \<le> (of_int (int M - 2009) :: rat)) = (6 \<le> int M - 2009)"
      using of_int_le_iff [where 'a = rat, of 6 "int M - 2009"] by simp
    with True 1(2) sub show ?thesis
      using numGt_nat [of 1000 M] by (simp add: Let_def)
  next
    case False
    have "(6 \<le> (of_nat M :: rat)) = (6 \<le> M)"
      using of_nat_le_iff [where 'a = rat, of 6 M] by simp
    with False show ?thesis
      using numGt_nat [of 1000 M] by (simp add: Let_def 1(2))
  qed
next
  case 2
  then show ?thesis by (simp add: Let_def)
next
  case (3 r)
  have "(2::rat) ^ 52 \<le> 2 ^ 53 - 2009" by simp
  also from 3(3) have "\<dots> \<le> r - 2009" by simp
  finally have "2 ^ 52 \<le> r - 2009" .
  from roundDouble_large [OF this]
  have "numGe (roundDouble (r - 2009)) (Number 6)"
    by (auto intro: order_trans [of 6 "2 ^ 52"])
  moreover from 3(3) have "1000 < r" by simp
  moreover from 3(1) have "1000 < M" "6 \<le> int M - 2009" by simp_all
  ultimately show ?thesis
    by (simp add: Let_def 3(2))
qed

lemma esHandler_digits:
  "digits ds \<Longrightarrow>
     esHandler [Some ds] =
       map (\<lambda>key. (key, ofBool (6 \<le> (if decimal ds > 1000 then int (decimal ds) - 2009
                                       else int (decimal ds)))))
         [''globalThis'', ''const'', ''arrowFunctions'', ''forOf'', ''destructuring'',
          ''bigInitLiteral'', ''import'', ''module'']"
proof -
  assume "digits ds"
  then have n: "toNumber (Some ds) = roundDouble (of_nat (decimal ds))"
    by (rule toNumber_digits)
  let ?v0 = "roundDouble (of_nat (decimal ds))"
  let ?b = "numGe (if numGt ?v0 (Number 1000) then numSub ?v0 (Number 2009) else ?v0) (Number 6)"
  have b: "?b = (6 \<le> (if decimal ds > 1000 then int (decimal ds) - 2009 else int (decimal ds)))"
    using es_edition [of "decimal ds"] by (simp only: Let_def)
  have "esHandler [Some ds] =
       map (\<lambda>key. (key, ofBool ?b))
         [''globalThis'', ''const'', ''arrowFunctions'', ''forOf'', ''destructuring'',
          ''bigInitLiteral'', ''import'', ''module'']"
    by (simp add: esHandler_def arg_def n Let_def)
  then show ?thesis
    by (simp only: b)
qed

text \<open>
  The rule of the \<open>es\<close> entry, on the property names of the source. For every string
  \<open>es\<close> followed by digits of value \<open>v\<close> the call succeeds, the object has none of the
  platform and API properties, and every property of \<open>EcmaTargetProperties\<close> is
  \<open>true\<close> if the edition (\<open>v - 2009\<close> when \<open>v > 1000\<close>, else \<open>v\<close>) is at least 6 and
  \<open>false\<close> otherwise.
\<close>

theorem es_targets:
  "digits ds \<Longrightarrow>
     \<exists>tp. getTargetProperties (''es'' @ ds) = Inr tp \<and>
       (\<forall>key\<in>set (PlatformTargetProperties @ ApiTargetProperties). map_of tp key = None) \<and>
       (\<forall>key\<in>set EcmaTargetProperties.
          map_of tp key =
            Some (ofBool (6 \<le> (if decimal ds > 1000 then int (decimal ds) - 2009
                                 else int (decimal ds)))))"
proof -
  assume d: "digits ds"
  let ?b = "ofBool (6 \<le> (if decimal ds > 1000 then int (decimal ds) - 2009 else int (decimal ds)))"
  let ?tp = "map (\<lambda>key. (key, ?b))
         [''globalThis'', ''const'', ''arrowFunctions'', ''forOf'', ''destructuring'',
          ''bigInitLiteral'', ''import'', ''module'']"
  from d have "getTargetProperties (''es'' @ ds) = Inr ?tp"
    by (simp only: getTargetProperties_def findTarget_es esHandler_digits option.case)
  moreover have "\<forall>key\<in>set (PlatformTargetProperties @ ApiTargetProperties). map_of ?tp key = None"
    by (simp add: PlatformTargetProperties_def ApiTargetProperties_def)
  moreover have "\<forall>key\<in>set EcmaTargetProperties. map_of ?tp key = Some ?b"
    by (simp add: EcmaTargetProperties_def)
  ultimately show ?thesis by blast
qed

theorem es_targets_witness:
  "digits ''2020'' \<and> digits ''5'' \<and>
   (\<exists>tp. getTargetProperties ''es2020'' = Inr tp \<and>
      (\<forall>key\<in>set (PlatformTargetProperties @ ApiTargetProperties). map_of tp key = None) \<and>
      (\<forall>key\<in>set EcmaTargetProperties. map_of tp key = Some JTrue)) \<and>
   (\<exists>tp. getTargetProperties ''es5'' = Inr tp \<and>
      (\<forall>key\<in>set (PlatformTargetProperties @ ApiTargetProperties). map_of tp key = None) \<and>
      (\<forall>key\<in>set EcmaTargetProperties. map_of tp key = Some JFalse))"
proof -
  have d: "digits ''2020''" "digits ''5''"
    by (simp_all add: digits_def isDigit_def)
  have v: "decimal ''2020'' = 2020" "decimal ''5'' = 5"
    by (simp_all add: decimal_def digitValue_def)
  from es_targets [OF d(1)] es_targets [OF d(2)] d show ?thesis
    by (simp add: v ofBool_def)
qed

text \<open>
  C9. The specification has every syntax flag of an \<open>es\<close> target, \<open>bigIntLiteral\<close>
  among them, \<open>true\<close> from edition 6 on. The handler writes that flag under the key
  \<open>bigInitLiteral\<close>, the spelling of the typedef whose description reads
  \<open>big int literal syntax is available\<close>: the object for \<open>es2020\<close> has no property
  \<open>bigIntLiteral\<close>, and reading it gives \<open>undefined\<close>.
\<close>

theorem es2020_bigIntLiteral:
  "getTargetProperties ''es2020'' =
     Inr [(''globalThis'', JTrue), (''const'', JTrue), (''arrowFunctions'', JTrue),
          (''forOf'', JTrue), (''destructuring'', JTrue), (''bigInitLiteral'', JTrue),
          (''import'', JTrue), (''module'', JTrue)] \<and>
   map_of (projr (getTargetProperties ''es2020'')) ''bigIntLiteral'' = None \<and>
   getProp (projr (getTargetProperties ''es2020'')) ''bigIntLiteral'' = JUndefined \<and>
   map_of (projr (getTargetProperties ''es2020'')) ''bigInitLiteral'' = Some JTrue"
  by (simp add: getTargetProperties_def TARGETS_def regExp_defs handler_defs getProp_def)

lemma versionGroups_nonempty: "versionGroups s = Some g \<Longrightarrow> s \<noteq> []"
  by (auto simp: versionGroups_def)

lemma nodeRegExp_captures:
  "nodeRegExp s = Some args \<Longrightarrow> \<exists>v g. args = [Some ''async-'', Some v, g] \<and> v \<noteq> []"
  by (auto simp: nodeRegExp_def split: option.splits dest: versionGroups_nonempty)

lemma electronMainRegExp_captures:
  "electronMainRegExp s = Some args \<Longrightarrow> \<exists>v g. args = [Some v, g] \<and> v \<noteq> []"
  by (auto simp: electronMainRegExp_def split: option.splits dest: versionGroups_nonempty)

lemma electronPreloadRegExp_captures:
  "electronPreloadRegExp s = Some args \<Longrightarrow> \<exists>v g. args = [Some v, g] \<and> v \<noteq> []"
  by (auto simp: electronPreloadRegExp_def split: option.splits dest: versionGroups_nonempty)

lemma nwjsRegExp_captures:
  "nwjsRegExp s = Some args \<Longrightarrow> \<exists>v g. args = [Some v, g] \<and> v \<noteq> []"
  by (auto simp: nwjsRegExp_def split: option.splits dest: versionGroups_nonempty)

lemma esRegExp_captures:
  "esRegExp s = Some args \<Longrightarrow> \<exists>v. args = [Some v] \<and> digits v"
  by (auto simp: esRegExp_def split: option.splits if_splits)

lemma ofBool_defined: "ofBool b \<noteq> JUndefined"
  by (simp add: ofBool_def)

lemma nodeHandler_defined:
  "v \<noteq> [] \<Longrightarrow> \<forall>(key, x)\<in>set (nodeHandler [a, Some v, g]). x \<noteq> JUndefined"
  by (simp add: nodeHandler_def arg_def Let_def versionDependent_truthy ofBool_defined)

lemma electronMainHandler_defined:
  "v \<noteq> [] \<Longrightarrow> \<forall>(key, x)\<in>set (electronMainHandler [Some v, g]). x \<noteq> JUndefined"
  by (simp add: electronMainHandler_def arg_def Let_def versionDependent_truthy)

lemma electronPreloadHandler_defined:
  "v \<noteq> [] \<Longrightarrow> \<forall>(key, x)\<in>set (electronPreloadHandler [Some v, g]). x \<noteq> JUndefined"
  by (simp add: electronPreloadHandler_def arg_def Let_def versionDependent_truthy)

lemma nwjsHandler_defined:
  "v \<noteq> [] \<Longrightarrow> \<forall>(key, x)\<in>set (nwjsHandler [Some v, g]). x \<noteq> JUndefined"
  by (simp add: nwjsHandler_def arg_def Let_def versionDependent_truthy)

lemma esHandler_defined: "\<forall>(key, x)\<in>set (esHandler args). x \<noteq> JUndefined"
  by (simp add: esHandler_def Let_def ofBool_defined)

lemma webHandler_defined: "\<forall>(key, x)\<in>set (webHandler args). x \<noteq> JUndefined"
  by (simp add: webHandler_def)

lemma webworkerHandler_defined: "\<forall>(key, x)\<in>set (webworkerHandler args). x \<noteq> JUndefined"
  by (simp add: webworkerHandler_def)

lemma findTarget_defined:
  assumes "findTarget TARGETS target = Some tp"
  shows "\<forall>(key, x)\<in>set tp. x \<noteq> JUndefined"
proof (cases "nodeRegExp target")
  case (Some args)
  with assms have "tp = nodeHandler args" by (simp add: TARGETS_def)
  with nodeRegExp_captures [OF Some] nodeHandler_defined show ?thesis by blast
next
  case n1: None
  show ?thesis
  proof (cases "webRegExp target")
    case (Some args)
    with assms n1 have "tp = webHandler args" by (simp add: TARGETS_def)
    with webHandler_defined show ?thesis by blast
  next
    case n2: None
    show ?thesis
    proof (cases "webworkerRegExp target")
      case (Some args)
      with assms n1 n2 have "tp = webworkerHandler args" by (simp add: TARGETS_def)
      with webworkerHandler_defined show ?thesis by blast
    next
      case n3: None
      show ?thesis
      proof (cases "electronMainRegExp target")
        case (Some args)
        with assms n1 n2 n3 have "tp = electronMainHandler args" by (simp add: TARGETS_def)
        with electronMainRegExp_captures [OF Some] electronMainHandler_defined
        show ?thesis by blast
      next
        case n4: None
        show ?thesis
        proof (cases "electronPreloadRegExp target")
          case (Some args)
          with assms n1 n2 n3 n4 have "tp = electronPreloadHandler args"
            by (simp add: TARGETS_def)
          with electronPreloadRegExp_captures [OF Some] electronPreloadHandler_defined
          show ?thesis by blast
        next
          case n5: None
          show ?thesis
          proof (cases "nwjsRegExp target")
            case (Some args)
            with assms n1 n2 n3 n4 n5 have "tp = nwjsHandler args" by (simp add: TARGETS_def)
            with nwjsRegExp_captures [OF Some] nwjsHandler_defined show ?thesis by blast
          next
            case n6: None
            show ?thesis
            proof (cases "esRegExp target")
              case (Some args)
              with assms n1 n2 n3 n4 n5 n6 have "tp = esHandler args"
                by (simp add: TARGETS_def)
              with esHandler_defined show ?thesis by blast
            next
              case None
              with assms n1 n2 n3 n4 n5 n6 show ?thesis by (simp add: TARGETS_def)
            qed
          qed
        qed
      qed
    qed
  qed
qed

text \<open>
  C10. When the call succeeds, every property of the returned object holds \<open>true\<close> or
  \<open>false\<close>, never \<open>undefined\<close>: each expression that feeds
  \<open>versionDependent\<close> captures a non-empty version, so its \<open>!major\<close> branch is not
  taken.
\<close>

theorem resolved_values_boolean:
  "getTargetProperties target = Inr tp \<Longrightarrow> \<forall>(key, v)\<in>set tp. v = JTrue \<or> v = JFalse"
proof -
  assume "getTargetProperties target = Inr tp"
  then have "findTarget TARGETS target = Some tp"
    by (simp add: getTargetProperties_def split: option.splits)
  then have "\<forall>(key, x)\<in>set tp. x \<noteq> JUndefined"
    by (rule findTarget_defined)
  then show ?thesis
    by (auto intro: jsvalue.exhaust)
qed

theorem resolved_values_boolean_witness:
  "getTargetProperties ''electron11.0-renderer'' =
     Inr [(''node'', JTrue), (''web'', JTrue), (''electronPreload'', JTrue),
          (''electronMain'', JFalse), (''nwjs'', JFalse), (''global'', JTrue),
          (''require'', JFalse), (''importScriptsInWorker'', JFalse),
          (''importScripts'', JFalse), (''fetchWasm'', JFalse), (''document'', JFalse),
          (''globalThis'', JTrue), (''const'', JTrue), (''arrowFunctions'', JTrue),
          (''forOf'', JTrue), (''destructuring'', JTrue), (''bigInitLiteral'', JTrue),
          (''import'', JTrue), (''module'', JTrue)] \<and>
   list_all (\<lambda>(key, v). v = JTrue \<or> v = JFalse)
     (projr (getTargetProperties ''electron11.0-renderer''))"
proof -
  have r: "getTargetProperties ''electron11.0-renderer'' =
     Inr [(''node'', JTrue), (''web'', JTrue), (''electronPreload'', JTrue),
          (''electronMain'', JFalse), (''nwjs'', JFalse), (''global'', JTrue),
          (''require'', JFalse), (''importScriptsInWorker'', JFalse),
          (''importScripts'', JFalse), (''fetchWasm'', JFalse), (''document'', JFalse),
          (''globalThis'', JTrue), (''const'', JTrue), (''arrowFunctions'', JTrue),
          (''forOf'', JTrue), (''destructuring'', JTrue), (''bigInitLiteral'', JTrue),
          (''import'', JTrue), (''module'', JTrue)]"
    by (simp add: getTargetProperties_def TARGETS_def regExp_defs handler_defs)
  from resolved_values_boolean [OF r] r show ?thesis
    unfolding list_all_iff by simp
qed

subsection \<open>The error\<close>

lemma findTarget_None_iff:
  "findTarget entries target = None \<longleftrightarrow>
     (\<forall>(name, description, regExp, handler)\<in>set entries. regExp target = None)"
  by (induction entries target rule: findTarget.induct) (auto split: option.splits)

lemma sublist_join: "x \<in> set xs \<Longrightarrow> sublist x (join sep xs)"
proof (induction sep xs rule: join.induct)
  case (1 sep)
  then show ?case by simp
next
  case (2 sep y)
  then show ?case by simp
next
  case (3 sep y z zs)
  show ?case
  proof (cases "x = y")
    case True
    have "join sep (y # z # zs) = [] @ x @ (sep @ join sep (z # zs))"
      by (simp add: True)
    then show ?thesis
      unfolding sublist_def by blast
  next
    case False
    with 3 obtain ps ss where "join sep (z # zs) = ps @ x @ ss"
      by (auto simp: sublist_def)
    then have "join sep (y # z # zs) = (y @ sep @ ps) @ x @ ss"
      by simp
    then show ?thesis
      unfolding sublist_def by blast
  qed
qed

lemma sublist_target_message: "sublist target (unknownTargetMessage target)"
proof -
  have "\<exists>ps ss. unknownTargetMessage target = ps @ target @ ss"
    unfolding unknownTargetMessage_def by (metis append.assoc)
  then show ?thesis
    by (simp add: sublist_def)
qed

lemma sublist_entry_message:
  assumes "(name, description, regExp, handler) \<in> set TARGETS"
  shows "sublist (''* '' @ name @ '': '' @ description) (unknownTargetMessage target)"
proof -
  let ?line = "\<lambda>(name, description, regExp, handler). ''* '' @ name @ '': '' @ description"
  let ?lines = "map ?line TARGETS"
  from assms have "?line (name, description, regExp, handler) \<in> ?line ` set TARGETS"
    by (rule imageI)
  then have "(''* '' @ name @ '': '' @ description) \<in> set ?lines"
    by simp
  then have "sublist (''* '' @ name @ '': '' @ description) (join [CHR 0x0A] ?lines)"
    by (rule sublist_join)
  then obtain ps ss where "join [CHR 0x0A] ?lines = ps @ (''* '' @ name @ '': '' @ description) @ ss"
    by (auto simp: sublist_def)
  then have "\<exists>ps ss. unknownTargetMessage target = ps @ (''* '' @ name @ '': '' @ description) @ ss"
    unfolding unknownTargetMessage_def by (metis append.assoc)
  then show ?thesis
    by (simp only: sublist_def)
qed

text \<open>
  C8. A string that no expression of the table matches makes the call throw the error
  whose message holds the string and, for every entry of the table, the line with its
  name and description; and the call throws in no other case and with no other error.
\<close>

theorem unknown_target:
  "((\<forall>(name, description, regExp, handler)\<in>set TARGETS. regExp target = None) \<longrightarrow>
      getTargetProperties target = Inl (Error (unknownTargetMessage target))) \<and>
   (\<forall>err. getTargetProperties target = Inl err \<longrightarrow>
      (\<forall>(name, description, regExp, handler)\<in>set TARGETS. regExp target = None) \<and>
      err = Error (unknownTargetMessage target)) \<and>
   sublist target (unknownTargetMessage target) \<and>
   (\<forall>(name, description, regExp, handler)\<in>set TARGETS.
      sublist (''* '' @ name @ '': '' @ description) (unknownTargetMessage target))"
proof (intro conjI)
  show "(\<forall>(name, description, regExp, handler)\<in>set TARGETS. regExp target = None) \<longrightarrow>
      getTargetProperties target = Inl (Error (unknownTargetMessage target))"
    by (simp add: getTargetProperties_def findTarget_None_iff [symmetric])
  show "\<forall>err. getTargetProperties target = Inl err \<longrightarrow>
      (\<forall>(name, description, regExp, handler)\<in>set TARGETS. regExp target = None) \<and>
      err = Error (unknownTargetMessage target)"
    by (auto simp: getTargetProperties_def findTarget_None_iff [symmetric] split: option.splits)
  show "sublist target (unknownTargetMessage target)"
    by (rule sublist_target_message)
  show "\<forall>(name, description, regExp, handler)\<in>set TARGETS.
      sublist (''* '' @ name @ '': '' @ description) (unknownTargetMessage target)"
    using sublist_entry_message by blast
qed

theorem unknown_target_witness:
  "list_all (\<lambda>(name, description, regExp, handler). regExp ''bogus-target'' = None) TARGETS \<and>
   getTargetProperties ''bogus-target'' = Inl (Error (unknownTargetMessage ''bogus-target'')) \<and>
   sublist ''bogus-target'' (unknownTargetMessage ''bogus-target'') \<and>
   sublist ''* esX: EcmaScript in this version. Examples: es5, es2020.''
     (unknownTargetMessage ''bogus-target'')"
proof -
  have none: "\<forall>(name, description, regExp, handler)\<in>set TARGETS. regExp ''bogus-target'' = None"
    by (simp add: TARGETS_def regExp_defs)
  have last: "(''esX'', ''EcmaScript in this version. Examples: es5, es2020.'', esRegExp, esHandler)
      \<in> set TARGETS"
    by (simp add: TARGETS_def)
  from unknown_target [of "''bogus-target''"] none last show ?thesis
    unfolding list_all_iff by fastforce
qed

subsection \<open>Several targets\<close>

lemma mapTargets_Inr:
  "list_all2 (\<lambda>t tp. getTargetProperties t = Inr tp) targets tps \<Longrightarrow>
     mapTargets targets = Inr tps"
  by (induction targets tps rule: list_all2_induct) simp_all

lemma mapTargets_Inl:
  "\<forall>p\<in>set pre. \<exists>tp. getTargetProperties p = Inr tp \<Longrightarrow> getTargetProperties t = Inl e \<Longrightarrow>
     mapTargets (pre @ t # post) = Inl e"
  by (induction pre) (auto split: sum.splits)

lemma merge_web_es2020:
  "mergeTargetProperties [webHandler [], esHandler [Some ''2020'']] False =
     [(''web'', JTrue), (''node'', JFalse), (''electronMain'', JFalse),
      (''electronPreload'', JFalse), (''nwjs'', JFalse), (''document'', JTrue),
      (''importScriptsInWorker'', JTrue), (''fetchWasm'', JTrue), (''importScripts'', JFalse),
      (''require'', JFalse), (''global'', JFalse), (''globalThis'', JTrue), (''const'', JTrue),
      (''arrowFunctions'', JTrue), (''forOf'', JTrue), (''destructuring'', JTrue),
      (''bigInitLiteral'', JTrue), (''import'', JTrue), (''module'', JTrue)]"
  by (simp add: mergeTargetProperties_def collectKeys_def objectKeys_def setAdd_def
      getProp_def jsTruthy_def handler_defs isDigit_def)

text \<open>
  C7. If every element resolves, the call returns an object that is the conjunctive
  merge of the resolved objects: a key of at least one of them is in it, with \<open>false\<close>
  if one of them holds \<open>false\<close> under it and \<open>true\<close> otherwise, and no other key is.
  If an element does not resolve and all before it do, the call throws that element's
  error and returns no merged object.
\<close>

theorem getTargetsProperties_spec:
  "(list_all2 (\<lambda>t tp. getTargetProperties t = Inr tp) targets tps \<longrightarrow>
      (\<exists>result. getTargetsProperties targets = Inr result \<and>
         (\<forall>key. map_of result key =
            (if \<exists>tp\<in>set tps. key \<in> set (objectKeys tp)
             then Some (if \<exists>tp\<in>set tps. map_of tp key = Some JFalse then JFalse else JTrue)
             else None)))) \<and>
   ((\<forall>p\<in>set pre. \<exists>tp. getTargetProperties p = Inr tp) \<and> getTargetProperties t = Inl e \<longrightarrow>
      getTargetsProperties (pre @ t # post) = Inl e)"
  by (simp add: getTargetsProperties_def mapTargets_Inr mapTargets_Inl
      map_of_mergeTargetProperties mergeLoop_all ofBool_def getProp_eq_iff)

theorem getTargetsProperties_spec_witness:
  "getTargetProperties ''web'' = Inr (webHandler []) \<and>
   getTargetProperties ''es2020'' = Inr (esHandler [Some ''2020'']) \<and>
   getTargetProperties ''bogus-target'' = Inl (Error (unknownTargetMessage ''bogus-target'')) \<and>
   getTargetsProperties [''web'', ''es2020''] =
     Inr [(''web'', JTrue), (''node'', JFalse), (''electronMain'', JFalse),
          (''electronPreload'', JFalse), (''nwjs'', JFalse), (''document'', JTrue),
          (''importScriptsInWorker'', JTrue), (''fetchWasm'', JTrue),
          (''importScripts'', JFalse), (''require'', JFalse), (''global'', JFalse),
          (''globalThis'', JTrue), (''const'', JTrue), (''arrowFunctions'', JTrue),
          (''forOf'', JTrue), (''destructuring'', JTrue), (''bigInitLiteral'', JTrue),
          (''import'', JTrue), (''module'', JTrue)] \<and>
   map_of (projr (getTargetsProperties [''web'', ''es2020''])) ''web'' = Some JTrue \<and>
   map_of (projr (getTargetsProperties [''web'', ''es2020''])) ''require'' = Some JFalse \<and>
   map_of (projr (getTargetsProperties [''web'', ''es2020''])) ''module'' = Some JTrue \<and>
   map_of (projr (getTargetsProperties [''web'', ''es2020''])) ''bogus'' = None \<and>
   getTargetsProperties [''web'', ''bogus-target'', ''nope'', ''es5''] =
     Inl (Error (unknownTargetMessage ''bogus-target''))"
proof -
  have web: "getTargetProperties ''web'' = Inr (webHandler [])"
    by (simp add: getTargetProperties_def TARGETS_def regExp_defs)
  have es: "getTargetProperties ''es2020'' = Inr (esHandler [Some ''2020''])"
    by (simp add: getTargetProperties_def TARGETS_def regExp_defs)
  have bogus: "getTargetProperties ''bogus-target'' = Inl (Error (unknownTargetMessage ''bogus-target''))"
    by (simp add: getTargetProperties_def TARGETS_def regExp_defs)
  have merged: "getTargetsProperties [''web'', ''es2020''] =
     Inr [(''web'', JTrue), (''node'', JFalse), (''electronMain'', JFalse),
          (''electronPreload'', JFalse), (''nwjs'', JFalse), (''document'', JTrue),
          (''importScriptsInWorker'', JTrue), (''fetchWasm'', JTrue),
          (''importScripts'', JFalse), (''require'', JFalse), (''global'', JFalse),
          (''globalThis'', JTrue), (''const'', JTrue), (''arrowFunctions'', JTrue),
          (''forOf'', JTrue), (''destructuring'', JTrue), (''bigInitLiteral'', JTrue),
          (''import'', JTrue), (''module'', JTrue)]"
    by (simp add: getTargetsProperties_def web es merge_web_es2020)
  from getTargetsProperties_spec
         [of "[''web'', ''es2020'']" "[webHandler [], esHandler [Some ''2020'']]"
             "[''web'']" "''bogus-target''" "Error (unknownTargetMessage ''bogus-target'')"
             "[''nope'', ''es5'']"]
       web es bogus merged
  show ?thesis
    by simp
qed

end
